theory Spec2Isabelle
  imports Main "HOL-Library.Word"
begin

unbundle bit_operations_syntax

section \<open>Machine types and kernel constants\<close>

text \<open>
  The driver hlampctl.c works on fixed-width C integers. A value of type \<open>int\<close>, \<open>s32\<close> or
  \<open>u32\<close> is a 32-bit word; \<open>sint\<close> reads it as two's complement and \<open>uint\<close> as unsigned.
  A cast between \<open>s32\<close> and \<open>u32\<close> keeps the bits, so both are the same type here.
  \<open>long\<close> (the facet selector \<open>mask\<close> of the callbacks, written \<open>mask'\<close> here
  since \<open>mask\<close> is a constant of the word library) is a 64-bit word.
\<close>

type_synonym u8 = "8 word"
type_synonym u32 = "32 word"
type_synonym s32 = "32 word"
type_synonym c_int = "32 word"
type_synonym c_long = "64 word"

text \<open>Error numbers of \<open>errno-base.h\<close> and \<open>errno.h\<close>; the driver returns them negated.\<close>

definition ENOMEM :: c_int where "ENOMEM = 12"
definition ENODEV :: c_int where "ENODEV = 19"
definition EINVAL :: c_int where "EINVAL = 22"
definition EOPNOTSUPP :: c_int where "EOPNOTSUPP = 95"

text \<open>Value formats and facet selectors of \<open>linux/iio/types.h\<close>.\<close>

definition IIO_VAL_INT :: c_int where "IIO_VAL_INT = 1"
definition IIO_VAL_INT_PLUS_NANO :: c_int where "IIO_VAL_INT_PLUS_NANO = 3"

definition IIO_CHAN_INFO_RAW :: c_long where "IIO_CHAN_INFO_RAW = 0"
definition IIO_CHAN_INFO_SCALE :: c_long where "IIO_CHAN_INFO_SCALE = 2"
definition IIO_CHAN_INFO_SAMP_FREQ :: c_long where "IIO_CHAN_INFO_SAMP_FREQ = 12"

definition INDIO_DIRECT_MODE :: c_int where "INDIO_DIRECT_MODE = 1"
definition I2C_FUNC_I2C :: u32 where "I2C_FUNC_I2C = 1"

definition BIT :: "c_long \<Rightarrow> c_long" where
  "BIT n = push_bit (unat n) 1"

text \<open>
  Modelled from the spec: \<open>sign_extend32\<close> is a helper of \<open>linux/bitops.h\<close> and is not
  part of hlampctl.c. The spec says of its use in the driver: sign-extend the low 12 bits
  (bit 11 is the sign bit) into a signed integer. The kernel computes it for the sign bit
  \<open>index\<close> with \<open>shift = 31 - index\<close> as \<open>(s32)(value << shift) >> shift\<close>, the right
  shift being arithmetic; that is the definition taken here.
\<close>

definition sign_extend32 :: "u32 \<Rightarrow> nat \<Rightarrow> s32" where
  "sign_extend32 val index =
     (let shift = 31 - index in signed_drop_bit shift (push_bit shift val))"

section \<open>The I2C link\<close>

text \<open>
  The bus master and the peripheral behind it are not part of the driver. An adapter is
  given by what its transfer primitives answer in a peripheral state \<open>'p\<close>: the result
  code (negative on failure, the byte read or 0 otherwise) and the next peripheral state.
  A client holds its adapter, the current peripheral state and the transfers issued so
  far on the link, oldest first.
\<close>

datatype xfer =
    Read_byte_data u8
  | Write_byte_data u8 u8
  | Master_recv nat

record 'p i2c_adapter =
  functionality :: u32
  read_byte_data :: "'p \<Rightarrow> u8 \<Rightarrow> s32 \<times> 'p"
  write_byte_data :: "'p \<Rightarrow> u8 \<Rightarrow> u8 \<Rightarrow> s32 \<times> 'p"
  master_recv :: "'p \<Rightarrow> nat \<Rightarrow> c_int \<times> 'p"

record 'p i2c_client =
  name :: string
  adapter :: "'p i2c_adapter"
  periph :: 'p
  xfers :: "xfer list"

definition i2c_check_functionality :: "'p i2c_adapter \<Rightarrow> u32 \<Rightarrow> bool" where
  "i2c_check_functionality adap func \<longleftrightarrow> (func AND functionality adap) = func"

definition i2c_smbus_read_byte_data :: "'p i2c_client \<Rightarrow> u8 \<Rightarrow> s32 \<times> 'p i2c_client" where
  "i2c_smbus_read_byte_data client command =
     (let (r, p) = read_byte_data (adapter client) (periph client) command
      in (r, client\<lparr>periph := p, xfers := xfers client @ [Read_byte_data command]\<rparr>))"

definition i2c_smbus_write_byte_data ::
    "'p i2c_client \<Rightarrow> u8 \<Rightarrow> u8 \<Rightarrow> s32 \<times> 'p i2c_client" where
  "i2c_smbus_write_byte_data client command val =
     (let (r, p) = write_byte_data (adapter client) (periph client) command val
      in (r, client\<lparr>periph := p, xfers := xfers client @ [Write_byte_data command val]\<rparr>))"

text \<open>The byte received by the probe is stored in a local that is never read.\<close>

definition i2c_master_recv :: "'p i2c_client \<Rightarrow> nat \<Rightarrow> c_int \<times> 'p i2c_client" where
  "i2c_master_recv client count =
     (let (r, p) = master_recv (adapter client) (periph client) count
      in (r, client\<lparr>periph := p, xfers := xfers client @ [Master_recv count]\<rparr>))"

section \<open>Client data and register access\<close>

record 'p hlampctl =
  i2c :: "'p i2c_client"
  id_client :: u8
  lock :: bool

definition mutex_init :: "'p hlampctl \<Rightarrow> 'p hlampctl" where
  "mutex_init adc = adc\<lparr>lock := False\<rparr>"

definition mutex_lock :: "'p hlampctl \<Rightarrow> 'p hlampctl" where
  "mutex_lock adc = adc\<lparr>lock := True\<rparr>"

definition mutex_unlock :: "'p hlampctl \<Rightarrow> 'p hlampctl" where
  "mutex_unlock adc = adc\<lparr>lock := False\<rparr>"

text \<open>
  \<open>hlampctl_read adc channel value\<close>: the third argument is what the cell \<open>*value\<close> holds
  before the call; the result is the return code, what the cell holds after the call,
  and the client data with the link as the transfer left it.
\<close>

definition hlampctl_read :: "'p hlampctl \<Rightarrow> u8 \<Rightarrow> c_int \<Rightarrow> c_int \<times> c_int \<times> 'p hlampctl" where
  "hlampctl_read adc channel val =
     (let (readval, client) =
            (if channel = 0 then i2c_smbus_read_byte_data (i2c adc) 2
             else if channel = 1 then i2c_smbus_read_byte_data (i2c adc) 1
             else if channel = 2 then i2c_smbus_read_byte_data (i2c adc) 3
             else (- 1, i2c adc));
          adc' = adc\<lparr>i2c := client\<rparr>
      in if sint readval < 0 then (- EINVAL, val, adc')
         else
           let temp = (readval :: u32);
               temp = (if channel = 2 then temp AND 0x00000001 else temp)
           in if channel = 0 then (0, sign_extend32 temp 11, adc')
              else (0, temp, adc'))"

definition hlampctl_write :: "'p hlampctl \<Rightarrow> u8 \<Rightarrow> c_int \<Rightarrow> c_int \<times> 'p hlampctl" where
  "hlampctl_write adc channel val =
     (if channel = 2 then
        let (retval, client) =
              i2c_smbus_write_byte_data (i2c adc) 3 (if 0 < sint val then 1 else 0)
        in (retval, adc\<lparr>i2c := client\<rparr>)
      else (- EINVAL, adc))"

section \<open>Channels and the callbacks of the IIO framework\<close>

datatype iio_chan_type = IIO_VOLTAGE | IIO_TEMP

record iio_chan_spec =
  type :: iio_chan_type
  indexed :: bool
  channel :: c_int
  output_chan :: bool
  info_mask_separate :: c_long
  info_mask_shared_by_type :: c_long

definition HLAMPCTL_ADCCHAN :: "c_int \<Rightarrow> iio_chan_spec" where
  "HLAMPCTL_ADCCHAN index =
     \<lparr>type = IIO_VOLTAGE, indexed = True, channel = index, output_chan = False,
      info_mask_separate = BIT IIO_CHAN_INFO_RAW OR BIT IIO_CHAN_INFO_SCALE,
      info_mask_shared_by_type = BIT IIO_CHAN_INFO_SAMP_FREQ\<rparr>"

definition HLAMPCTL_TEMPCHAN :: "c_int \<Rightarrow> iio_chan_spec" where
  "HLAMPCTL_TEMPCHAN index =
     \<lparr>type = IIO_TEMP, indexed = True, channel = index, output_chan = False,
      info_mask_separate = BIT IIO_CHAN_INFO_RAW,
      info_mask_shared_by_type = BIT IIO_CHAN_INFO_SAMP_FREQ\<rparr>"

definition HLAMPCTL_ENABLECHAN :: "c_int \<Rightarrow> iio_chan_spec" where
  "HLAMPCTL_ENABLECHAN index =
     \<lparr>type = IIO_VOLTAGE, indexed = True, channel = index, output_chan = True,
      info_mask_separate = BIT IIO_CHAN_INFO_RAW,
      info_mask_shared_by_type = 0\<rparr>"

definition hlampctl_channels :: "iio_chan_spec list" where
  "hlampctl_channels = [HLAMPCTL_ADCCHAN 0, HLAMPCTL_TEMPCHAN 1, HLAMPCTL_ENABLECHAN 2]"

text \<open>The channel number of a descriptor is an \<open>int\<close>; the driver narrows it to \<open>u8\<close>.\<close>

definition hlampctl_read_channel ::
    "'p hlampctl \<Rightarrow> iio_chan_spec \<Rightarrow> c_int \<Rightarrow> c_int \<times> c_int \<times> 'p hlampctl" where
  "hlampctl_read_channel adc chan val =
     (let req_channel = (ucast (channel chan) :: u8);
          (ret, val', adc') = hlampctl_read (mutex_lock adc) req_channel val
      in (ret, val', mutex_unlock adc'))"

definition hlampctl_write_channel ::
    "'p hlampctl \<Rightarrow> iio_chan_spec \<Rightarrow> c_int \<Rightarrow> c_int \<times> 'p hlampctl" where
  "hlampctl_write_channel adc chan val =
     (let req_channel = (ucast (channel chan) :: u8);
          (ret, adc') = hlampctl_write (mutex_lock adc) req_channel val
      in (ret, mutex_unlock adc'))"

text \<open>
  \<open>hlampctl_read_raw adc chan val1 val2 mask'\<close>, with \<open>adc\<close> the private data of the IIO
  device: \<open>val1\<close> and \<open>val2\<close> are the contents of the two output cells before the call,
  and the result holds the return code, both cells after the call and the client data.
  The literal \<open>3300000000\<close> does not fit \<open>int\<close>, so the quotient is computed in 64 bits
  and then narrowed to \<open>int\<close>.
\<close>

definition hlampctl_read_raw ::
    "'p hlampctl \<Rightarrow> iio_chan_spec \<Rightarrow> c_int \<Rightarrow> c_int \<Rightarrow> c_long
      \<Rightarrow> c_int \<times> c_int \<times> c_int \<times> 'p hlampctl" where
  "hlampctl_read_raw adc chan val1 val2 mask' =
     (if mask' = IIO_CHAN_INFO_RAW then
        let (err, val1', adc') = hlampctl_read_channel adc chan val1
        in if sint err < 0 then (- EINVAL, val1', val2, adc')
           else (IIO_VAL_INT, val1', val2, adc')
      else if mask' = IIO_CHAN_INFO_SCALE then
        if channel chan = 0
        then (IIO_VAL_INT_PLUS_NANO, 0, ucast ((3300000000 :: 64 word) div 256), adc)
        else (IIO_VAL_INT, 1, val2, adc)
      else if mask' = IIO_CHAN_INFO_SAMP_FREQ then (IIO_VAL_INT, 10, val2, adc)
      else (- EINVAL, val1, val2, adc))"

definition hlampctl_write_raw ::
    "'p hlampctl \<Rightarrow> iio_chan_spec \<Rightarrow> c_int \<Rightarrow> c_int \<Rightarrow> c_long \<Rightarrow> c_int \<times> 'p hlampctl" where
  "hlampctl_write_raw adc chan val1 val2 mask' =
     (if mask' = IIO_CHAN_INFO_RAW then
        if channel chan = 2 then
          let (err, adc') = hlampctl_write_channel adc chan val1
          in if sint err < 0 then (- EINVAL, adc') else (0, adc')
        else (- EINVAL, adc)
      else if mask' = IIO_CHAN_INFO_SCALE then (- EINVAL, adc)
      else if mask' = IIO_CHAN_INFO_SAMP_FREQ then (- EINVAL, adc)
      else (- EINVAL, adc))"

section \<open>Attaching a device\<close>

text \<open>
  The IIO core is not part of the driver either. Of it the probe needs to know whether
  \<open>devm_iio_device_alloc\<close> yields a device and what \<open>devm_iio_device_register\<close> answers
  for the device handed to it.
\<close>

datatype iio_info = hlampctl_info

record 'p iio_dev =
  priv :: "'p hlampctl"
  dev_name :: string
  modes :: c_int
  info :: "iio_info option"
  channels :: "iio_chan_spec list"
  num_channels :: c_int

record 'p iio_core =
  devm_iio_device_alloc :: bool
  devm_iio_device_register :: "'p iio_dev \<Rightarrow> c_int"

text \<open>
  \<open>hlampctl_probe core client\<close> gives the return code, the client after the probe
  transfer, and the device that the framework has registered (also stored as the
  client's driver data), if any. The allocated private data is zero-filled, so its \<open>id\<close>
  is 0; the device fields the probe does not assign are not modelled.
\<close>

definition hlampctl_probe ::
    "'p iio_core \<Rightarrow> 'p i2c_client \<Rightarrow> c_int \<times> 'p i2c_client \<times> 'p iio_dev option" where
  "hlampctl_probe core client =
     (if \<not> i2c_check_functionality (adapter client) I2C_FUNC_I2C
      then (- EOPNOTSUPP, client, None)
      else if \<not> devm_iio_device_alloc core then (- ENOMEM, client, None)
      else
        let adc = \<lparr>i2c = client, id_client = 0, lock = False\<rparr>;
            adc = mutex_init adc;
            adc = mutex_lock adc;
            (ret, client') = i2c_master_recv (i2c adc) 1;
            adc = mutex_unlock (adc\<lparr>i2c := client'\<rparr>)
        in if sint ret < 0 then (- ENODEV, client', None)
           else
             let indio_dev =
                   \<lparr>priv = adc, dev_name = name client, modes = INDIO_DIRECT_MODE,
                    info = Some hlampctl_info, channels = hlampctl_channels,
                    num_channels = 3\<rparr>;
                 err = devm_iio_device_register core indio_dev
             in if sint err < 0 then (err, client', None)
                else (0, client', Some indio_dev))"

section \<open>A sample peripheral\<close>

text \<open>
  A peripheral for the instances below: its state gives, for each sub-address, the result
  code that a byte read answers there; a byte write stores the byte and answers 0; a raw
  receive answers the number of bytes asked for.
\<close>

definition table_adapter :: "(u8 \<Rightarrow> s32) i2c_adapter" where
  "table_adapter =
     \<lparr>functionality = I2C_FUNC_I2C,
      read_byte_data = (\<lambda>p command. (p command, p)),
      write_byte_data = (\<lambda>p command val. (0, p(command := ucast val))),
      master_recv = (\<lambda>p count. (of_nat count, p))\<rparr>"

definition table_client :: "(u8 \<Rightarrow> s32) \<Rightarrow> (u8 \<Rightarrow> s32) i2c_client" where
  "table_client p = \<lparr>name = ''hlampctl'', adapter = table_adapter, periph = p, xfers = []\<rparr>"

definition table_adc :: "(u8 \<Rightarrow> s32) \<Rightarrow> (u8 \<Rightarrow> s32) hlampctl" where
  "table_adc p = \<lparr>i2c = table_client p, id_client = 0, lock = False\<rparr>"

section \<open>Sign extension\<close>

text \<open>
  With the sign bit at index 11 the two shifts of \<open>sign_extend32\<close> are the sign extension
  of the low 12 bits.
\<close>

lemma sign_extend32_11: "sign_extend32 x 11 = signed_take_bit 11 x"
  unfolding sign_extend32_def Let_def
  by (rule bit_word_eqI) (auto simp: bit_simps)

lemma signed_take_bit_11_int:
  fixes k :: int
  assumes "0 \<le> k" "k \<le> 4095"
  shows "signed_take_bit 11 k = (if 2048 \<le> k then k - 4096 else k)"
proof -
  have eq: "signed_take_bit 11 k = (k + 2048) mod 4096 - 2048"
    by (simp add: signed_take_bit_eq_take_bit_shift take_bit_eq_mod)
  show ?thesis
  proof (cases "2048 \<le> k")
    case True
    have "(k + 2048) mod 4096 = (k - 2048 + 4096) mod 4096"
      by (simp add: algebra_simps)
    also have "\<dots> = (k - 2048) mod 4096"
      by (simp only: mod_add_self2)
    also have "\<dots> = k - 2048"
      using True assms by (intro mod_pos_pos_trivial) simp_all
    finally show ?thesis using True eq by simp
  next
    case False
    then have "(k + 2048) mod 4096 = k + 2048"
      using assms by (intro mod_pos_pos_trivial) simp_all
    then show ?thesis using False eq by simp
  qed
qed

lemma sint_sign_extend32_11:
  fixes r :: "32 word"
  assumes "0 \<le> sint r" "sint r \<le> 4095"
  shows "sint (sign_extend32 r 11) = (if 2048 \<le> sint r then sint r - 4096 else sint r)"
proof -
  have "signed_take_bit 11 r = signed_take_bit 11 (word_of_int (sint r))"
    by simp
  also have "\<dots> = word_of_int (signed_take_bit 11 (sint r))"
    by (rule signed_take_bit_of_int)
  finally have "sint (signed_take_bit 11 r) = signed_take_bit 31 (signed_take_bit 11 (sint r))"
    by (simp add: sint_sbintrunc')
  also have "\<dots> = signed_take_bit 11 (sint r)"
    by simp
  also have "\<dots> = (if 2048 \<le> sint r then sint r - 4096 else sint r)"
    using assms by (rule signed_take_bit_11_int)
  finally show ?thesis
    by (simp only: sign_extend32_11)
qed

lemma sign_extend32_11_byte:
  fixes r :: "32 word"
  assumes "0 \<le> sint r" "sint r \<le> 255"
  shows "sign_extend32 r 11 = r"
proof -
  have "sint (sign_extend32 r 11) = sint r"
    using assms by (simp add: sint_sign_extend32_11)
  then show ?thesis by (rule signed_word_eqI)
qed

section \<open>The register accessors, channel by channel\<close>

lemma hlampctl_read_0:
  assumes "i2c_smbus_read_byte_data (i2c adc) 2 = (r, client)"
  shows "hlampctl_read adc 0 old =
    (if sint r < 0 then (- EINVAL, old, adc\<lparr>i2c := client\<rparr>)
     else (0, sign_extend32 r 11, adc\<lparr>i2c := client\<rparr>))"
  unfolding hlampctl_read_def
  apply (simp only: if_True refl assms Let_def prod.case)
  apply simp
  done

lemma hlampctl_read_1:
  assumes "i2c_smbus_read_byte_data (i2c adc) 1 = (r, client)"
  shows "hlampctl_read adc 1 old =
    (if sint r < 0 then (- EINVAL, old, adc\<lparr>i2c := client\<rparr>)
     else (0, r, adc\<lparr>i2c := client\<rparr>))"
  unfolding hlampctl_read_def
  by (simp add: assms Let_def)

lemma hlampctl_read_2:
  assumes "i2c_smbus_read_byte_data (i2c adc) 3 = (r, client)"
  shows "hlampctl_read adc 2 old =
    (if sint r < 0 then (- EINVAL, old, adc\<lparr>i2c := client\<rparr>)
     else (0, r AND 1, adc\<lparr>i2c := client\<rparr>))"
  unfolding hlampctl_read_def
  by (simp add: assms Let_def)

lemma hlampctl_read_invalid:
  assumes "ch \<noteq> 0" "ch \<noteq> 1" "ch \<noteq> 2"
  shows "hlampctl_read adc ch old = (- EINVAL, old, adc)"
  unfolding hlampctl_read_def
  by (simp add: assms Let_def)

lemma hlampctl_write_2:
  assumes "i2c_smbus_write_byte_data (i2c adc) 3 (if 0 < sint v then 1 else 0) = (r, client)"
  shows "hlampctl_write adc 2 v = (r, adc\<lparr>i2c := client\<rparr>)"
  unfolding hlampctl_write_def
  by (simp add: assms)

lemma hlampctl_write_invalid:
  assumes "ch \<noteq> 2"
  shows "hlampctl_write adc ch v = (- EINVAL, adc)"
  unfolding hlampctl_write_def
  by (simp add: assms)

lemma sint_ucast_u8:
  fixes b :: u8
  shows "sint (ucast b :: 32 word) = uint b"
proof -
  have lt: "uint b < 256"
    using uint_lt2p [of b] by simp
  have ge: "- 2147483648 \<le> uint b"
    using uint_ge_0 [of b] by linarith
  have "uint (ucast b :: 32 word) = uint b"
    by (rule uint_up_ucast) (simp add: is_up)
  then have "sint (ucast b :: 32 word) = signed_take_bit 31 (uint b)"
    by (simp add: sint_uint)
  also have "\<dots> = uint b"
    using lt ge by (intro signed_take_bit_int_eq_self) simp_all
  finally show ?thesis .
qed

lemma EINVAL_neq_0: "EINVAL \<noteq> 0"
  by (simp add: EINVAL_def)

text \<open>What the sample peripheral answers.\<close>

lemma table_adc_read:
  "i2c_smbus_read_byte_data (i2c (table_adc p)) a =
     (p a, (table_client p)\<lparr>xfers := [Read_byte_data a]\<rparr>)"
  by (simp add: i2c_smbus_read_byte_data_def table_adc_def table_client_def table_adapter_def)

section \<open>Reading\<close>

text \<open>
  Claim C1. When the byte-data read at sub-address 2 delivers a code \<open>r\<close> with
  \<open>0 \<le> r \<le> 4095\<close>, reading channel 0 succeeds (return code 0) and stores the low 12
  bits of \<open>r\<close> sign-extended from bit 11: \<open>r - 4096\<close> when \<open>r \<ge> 2048\<close>, and \<open>r\<close> itself
  when \<open>r < 2048\<close>.
\<close>

theorem hlampctl_read_channel0_sign_extend12:
  assumes "i2c_smbus_read_byte_data (i2c adc) 2 = (r, client)"
    and "0 \<le> sint r" and "sint r \<le> 4095"
  shows "\<exists>v. hlampctl_read adc 0 old = (0, v, adc\<lparr>i2c := client\<rparr>) \<and>
             sint v = (if 2048 \<le> sint r then sint r - 4096 else sint r)"
proof -
  have "hlampctl_read adc 0 old = (0, sign_extend32 r 11, adc\<lparr>i2c := client\<rparr>)"
    using assms(2) by (simp add: hlampctl_read_0 [OF assms(1)])
  moreover have "sint (sign_extend32 r 11) = (if 2048 \<le> sint r then sint r - 4096 else sint r)"
    using assms(2,3) by (rule sint_sign_extend32_11)
  ultimately show ?thesis by blast
qed

theorem hlampctl_read_channel0_sign_extend12_witness:
  "(0 \<le> sint (3000 :: s32) \<and> sint (3000 :: s32) \<le> 4095) \<and>
   fst (hlampctl_read (table_adc (\<lambda>_. 3000)) 0 7) = 0 \<and>
   sint (fst (snd (hlampctl_read (table_adc (\<lambda>_. 3000)) 0 7))) = - 1096"
proof -
  have b: "0 \<le> sint (3000 :: s32)" "sint (3000 :: s32) \<le> 4095"
    by simp_all
  from hlampctl_read_channel0_sign_extend12 [OF table_adc_read b, where old = 7]
  obtain v where "hlampctl_read (table_adc (\<lambda>_. 3000)) 0 7 =
        (0, v, (table_adc (\<lambda>_. 3000))\<lparr>i2c := (table_client (\<lambda>_. 3000))\<lparr>xfers := [Read_byte_data 2]\<rparr>\<rparr>)"
      and "sint v = - 1096"
    by auto
  with b show ?thesis by simp
qed

text \<open>
  Claim C9. The SMBus byte read answers an error code or a single byte, that is, a
  result of at most 255. Then reading channel 0 stores exactly what the bus delivered
  whenever that is not negative, and every successful read of channel 0 stores the
  delivered byte, a value from 0 to 255: the sign extension from bit 11 never applies.
\<close>

theorem hlampctl_read_channel0_byte:
  assumes "i2c_smbus_read_byte_data (i2c adc) 2 = (r, client)"
    and "sint r \<le> 255"
  shows "(0 \<le> sint r \<longrightarrow> hlampctl_read adc 0 old = (0, r, adc\<lparr>i2c := client\<rparr>)) \<and>
         (\<forall>v adc'. hlampctl_read adc 0 old = (0, v, adc') \<longrightarrow>
            v = r \<and> 0 \<le> sint v \<and> sint v \<le> 255)"
proof (cases "sint r < 0")
  case True
  then have "hlampctl_read adc 0 old = (- EINVAL, old, adc\<lparr>i2c := client\<rparr>)"
    by (simp add: hlampctl_read_0 [OF assms(1)])
  with True show ?thesis by (simp add: EINVAL_neq_0)
next
  case False
  then have "sign_extend32 r 11 = r"
    using assms(2) by (intro sign_extend32_11_byte) simp_all
  with False have "hlampctl_read adc 0 old = (0, r, adc\<lparr>i2c := client\<rparr>)"
    by (simp add: hlampctl_read_0 [OF assms(1)])
  with False assms(2) show ?thesis by simp
qed

theorem hlampctl_read_channel0_byte_witness:
  "sint (200 :: s32) \<le> 255 \<and> 0 \<le> sint (200 :: s32) \<and>
   hlampctl_read (table_adc (\<lambda>_. 200)) 0 7 =
     (0, 200, (table_adc (\<lambda>_. 200))\<lparr>i2c := (table_client (\<lambda>_. 200))\<lparr>xfers := [Read_byte_data 2]\<rparr>\<rparr>)"
proof -
  have b: "sint (200 :: s32) \<le> 255"
    by simp
  show ?thesis
    using hlampctl_read_channel0_byte [OF table_adc_read b, where old = 7] by simp
qed

text \<open>
  Claim C7. When the byte-data read at sub-address 3 delivers the byte \<open>b\<close>, reading
  channel 2 succeeds and stores \<open>b AND 1\<close>, which is 0 or 1 whatever the other bits of
  \<open>b\<close> are.
\<close>

theorem hlampctl_read_channel2_low_bit:
  fixes b :: u8
  assumes "i2c_smbus_read_byte_data (i2c adc) 3 = (ucast b, client)"
  shows "hlampctl_read adc 2 old = (0, ucast (b AND 1), adc\<lparr>i2c := client\<rparr>) \<and>
         (b AND 1 = 0 \<or> b AND 1 = 1)"
proof -
  have "\<not> sint (ucast b :: s32) < 0"
    by (simp add: sint_ucast_u8)
  then have "hlampctl_read adc 2 old = (0, ucast b AND 1, adc\<lparr>i2c := client\<rparr>)"
    by (simp add: hlampctl_read_2 [OF assms])
  moreover have "(ucast b :: s32) AND 1 = ucast (b AND 1)"
    by (simp add: unsigned_and_eq)
  moreover have "b AND 1 = 0 \<or> b AND 1 = 1"
    by (simp add: and_one_eq mod2_eq_if)
  ultimately show ?thesis by simp
qed

theorem hlampctl_read_channel2_low_bit_witness:
  "hlampctl_read (table_adc (\<lambda>_. 254)) 2 7 =
     (0, 0, (table_adc (\<lambda>_. 254))\<lparr>i2c := (table_client (\<lambda>_. 254))\<lparr>xfers := [Read_byte_data 3]\<rparr>\<rparr>) \<and>
   hlampctl_read (table_adc (\<lambda>_. 255)) 2 7 =
     (0, 1, (table_adc (\<lambda>_. 255))\<lparr>i2c := (table_client (\<lambda>_. 255))\<lparr>xfers := [Read_byte_data 3]\<rparr>\<rparr>)"
proof -
  have a: "i2c_smbus_read_byte_data (i2c (table_adc (\<lambda>_. 254))) 3 =
      (ucast (254 :: u8), (table_client (\<lambda>_. 254))\<lparr>xfers := [Read_byte_data 3]\<rparr>)"
    by (simp add: table_adc_read)
  have b: "i2c_smbus_read_byte_data (i2c (table_adc (\<lambda>_. 255))) 3 =
      (ucast (255 :: u8), (table_client (\<lambda>_. 255))\<lparr>xfers := [Read_byte_data 3]\<rparr>)"
    by (simp add: table_adc_read)
  show ?thesis
    using hlampctl_read_channel2_low_bit [OF a, of 7] hlampctl_read_channel2_low_bit [OF b, of 7]
    by simp
qed

text \<open>
  Claim C8. A read that fails leaves the output cell as it was: whenever \<open>hlampctl_read\<close>
  returns a code other than 0, because the channel is not one of 0, 1, 2 or because the
  bus transfer answered a negative code, that code is \<open>-EINVAL\<close> and the cell \<open>*value\<close>
  still holds what it held before the call. The cell is written on the success path only.
\<close>

theorem hlampctl_read_failure_keeps_value:
  assumes "hlampctl_read adc ch old = (ret, v, adc')" and "ret \<noteq> 0"
  shows "ret = - EINVAL \<and> v = old"
proof -
  consider "ch = 0" | "ch = 1" | "ch = 2" | "ch \<noteq> 0" "ch \<noteq> 1" "ch \<noteq> 2"
    by blast
  then show ?thesis
  proof cases
    case 1
    obtain r client where "i2c_smbus_read_byte_data (i2c adc) 2 = (r, client)"
      by (cases "i2c_smbus_read_byte_data (i2c adc) 2")
    from hlampctl_read_0 [OF this, of old] assms 1 show ?thesis
      by (simp split: if_splits)
  next
    case 2
    obtain r client where "i2c_smbus_read_byte_data (i2c adc) 1 = (r, client)"
      by (cases "i2c_smbus_read_byte_data (i2c adc) 1")
    from hlampctl_read_1 [OF this, of old] assms 2 show ?thesis
      by (simp split: if_splits)
  next
    case 3
    obtain r client where "i2c_smbus_read_byte_data (i2c adc) 3 = (r, client)"
      by (cases "i2c_smbus_read_byte_data (i2c adc) 3")
    from hlampctl_read_2 [OF this, of old] assms 3 show ?thesis
      by (simp split: if_splits)
  next
    case 4
    from hlampctl_read_invalid [OF this, of adc old] assms show ?thesis
      by simp
  qed
qed

text \<open>A read of channel 0 on a peripheral whose register reads answer the error code -5.\<close>

lemma table_adc_read_failing:
  "hlampctl_read (table_adc (\<lambda>_. - 5)) 0 7 =
     (- EINVAL, 7, (table_adc (\<lambda>_. - 5))\<lparr>i2c := (table_client (\<lambda>_. - 5))\<lparr>xfers := [Read_byte_data 2]\<rparr>\<rparr>)"
  by (simp add: hlampctl_read_0 [OF table_adc_read])

theorem hlampctl_read_failure_keeps_value_witness:
  "fst (hlampctl_read (table_adc (\<lambda>_. - 5)) 0 7) \<noteq> 0 \<and>
   fst (hlampctl_read (table_adc (\<lambda>_. - 5)) 0 7) = - EINVAL \<and>
   fst (snd (hlampctl_read (table_adc (\<lambda>_. - 5)) 0 7)) = 7 \<and>
   fst (hlampctl_read (table_adc (\<lambda>_. 0)) 9 7) \<noteq> 0 \<and>
   fst (hlampctl_read (table_adc (\<lambda>_. 0)) 9 7) = - EINVAL \<and>
   fst (snd (hlampctl_read (table_adc (\<lambda>_. 0)) 9 7)) = 7"
proof -
  let ?bus = "hlampctl_read (table_adc (\<lambda>_. - 5)) 0 7"
  let ?chan = "hlampctl_read (table_adc (\<lambda>_. 0)) 9 7"
  have bus: "?bus = (fst ?bus, fst (snd ?bus), snd (snd ?bus))"
    and chan: "?chan = (fst ?chan, fst (snd ?chan), snd (snd ?chan))"
    by simp_all
  have bus_fails: "fst ?bus \<noteq> 0"
    by (simp add: table_adc_read_failing EINVAL_neq_0)
  have chan_fails: "fst ?chan \<noteq> 0"
    by (simp add: hlampctl_read_invalid EINVAL_neq_0)
  from hlampctl_read_failure_keeps_value [OF bus bus_fails]
    hlampctl_read_failure_keeps_value [OF chan chan_fails] bus_fails chan_fails
  show ?thesis by simp
qed

section \<open>Rejected channels\<close>

text \<open>
  Claim C10. For every channel other than 0, 1 and 2, \<open>hlampctl_read\<close> returns \<open>-EINVAL\<close>,
  and for every channel other than 2, \<open>hlampctl_write\<close> returns \<open>-EINVAL\<close>. In both cases
  the client data comes back as it went in: no transfer is added to the link, the state
  of the peripheral is untouched, and the output cell of the read is unchanged.
\<close>

theorem hlampctl_rejected_channels:
  "(ch \<notin> {0, 1, 2} \<longrightarrow> hlampctl_read adc ch old = (- EINVAL, old, adc)) \<and>
   (ch \<noteq> 2 \<longrightarrow> hlampctl_write adc ch v = (- EINVAL, adc))"
  by (simp add: hlampctl_read_invalid hlampctl_write_invalid)

theorem hlampctl_rejected_channels_witness:
  "(7 :: u8) \<notin> {0, 1, 2} \<and> (7 :: u8) \<noteq> 2 \<and> (0 :: u8) \<noteq> 2 \<and>
   hlampctl_read (table_adc (\<lambda>_. 9)) 7 5 = (- EINVAL, 5, table_adc (\<lambda>_. 9)) \<and>
   hlampctl_write (table_adc (\<lambda>_. 9)) 7 1 = (- EINVAL, table_adc (\<lambda>_. 9)) \<and>
   hlampctl_write (table_adc (\<lambda>_. 9)) 0 1 = (- EINVAL, table_adc (\<lambda>_. 9)) \<and>
   xfers (i2c (table_adc (\<lambda>_. 9))) = []"
  using hlampctl_rejected_channels [of 7 "table_adc (\<lambda>_. 9)" 5 1]
    hlampctl_rejected_channels [of 0 "table_adc (\<lambda>_. 9)" 5 1]
  by (simp add: table_adc_def table_client_def)

section \<open>The callbacks\<close>

lemma info_distinct:
  "IIO_CHAN_INFO_SCALE \<noteq> IIO_CHAN_INFO_RAW"
  "IIO_CHAN_INFO_SAMP_FREQ \<noteq> IIO_CHAN_INFO_RAW"
  "IIO_CHAN_INFO_SAMP_FREQ \<noteq> IIO_CHAN_INFO_SCALE"
  by (simp_all add: IIO_CHAN_INFO_RAW_def IIO_CHAN_INFO_SCALE_def IIO_CHAN_INFO_SAMP_FREQ_def)

lemma hlampctl_write_channel_2:
  assumes "channel chan = 2"
  shows "hlampctl_write_channel adc chan v =
     (fst (hlampctl_write (mutex_lock adc) 2 v),
      mutex_unlock (snd (hlampctl_write (mutex_lock adc) 2 v)))"
  unfolding hlampctl_write_channel_def
  by (simp add: assms Let_def split: prod.split)

text \<open>A write to channel 2 of the sample peripheral, under the lock.\<close>

lemma table_adc_write:
  "hlampctl_write (mutex_lock (table_adc p)) 2 v =
     (0, (mutex_lock (table_adc p))
           \<lparr>i2c := (table_client (p(3 := if 0 < sint v then 1 else 0)))
              \<lparr>xfers := [Write_byte_data 3 (if 0 < sint v then 1 else 0)]\<rparr>\<rparr>)"
  by (simp add: hlampctl_write_def i2c_smbus_write_byte_data_def mutex_lock_def
      table_adc_def table_client_def table_adapter_def)

text \<open>
  Claim C5. \<open>hlampctl_write_raw\<close> returns \<open>-EINVAL\<close> and leaves the client data alone for
  every combination of channel and facet other than channel 2 with the RAW facet: so for
  RAW on channels 0 and 1 with any value, and for SCALE, SAMP_FREQ and any other facet
  on any channel. For channel 2 with RAW it hands the value to \<open>hlampctl_write\<close> under the
  lock and returns 0, or \<open>-EINVAL\<close> when that write answers a negative code.
\<close>

theorem hlampctl_write_raw_only_channel2_raw:
  "(\<not> (channel chan = 2 \<and> mask' = IIO_CHAN_INFO_RAW) \<longrightarrow>
      hlampctl_write_raw adc chan val1 val2 mask' = (- EINVAL, adc)) \<and>
   (channel chan = 2 \<and> mask' = IIO_CHAN_INFO_RAW \<longrightarrow>
      hlampctl_write_raw adc chan val1 val2 mask' =
        (if sint (fst (hlampctl_write (mutex_lock adc) 2 val1)) < 0 then - EINVAL else 0,
         mutex_unlock (snd (hlampctl_write (mutex_lock adc) 2 val1))))"
proof (intro conjI impI)
  assume "\<not> (channel chan = 2 \<and> mask' = IIO_CHAN_INFO_RAW)"
  then show "hlampctl_write_raw adc chan val1 val2 mask' = (- EINVAL, adc)"
    unfolding hlampctl_write_raw_def by auto
next
  assume "channel chan = 2 \<and> mask' = IIO_CHAN_INFO_RAW"
  then show "hlampctl_write_raw adc chan val1 val2 mask' =
        (if sint (fst (hlampctl_write (mutex_lock adc) 2 val1)) < 0 then - EINVAL else 0,
         mutex_unlock (snd (hlampctl_write (mutex_lock adc) 2 val1)))"
    unfolding hlampctl_write_raw_def
    by (simp add: hlampctl_write_channel_2)
qed

theorem hlampctl_write_raw_only_channel2_raw_witness:
  "hlampctl_write_raw (table_adc (\<lambda>_. 0)) (HLAMPCTL_ADCCHAN 0) 1 0 IIO_CHAN_INFO_RAW =
     (- EINVAL, table_adc (\<lambda>_. 0)) \<and>
   hlampctl_write_raw (table_adc (\<lambda>_. 0)) (HLAMPCTL_TEMPCHAN 1) 1 0 IIO_CHAN_INFO_RAW =
     (- EINVAL, table_adc (\<lambda>_. 0)) \<and>
   hlampctl_write_raw (table_adc (\<lambda>_. 0)) (HLAMPCTL_ENABLECHAN 2) 1 0 IIO_CHAN_INFO_SCALE =
     (- EINVAL, table_adc (\<lambda>_. 0)) \<and>
   hlampctl_write_raw (table_adc (\<lambda>_. 0)) (HLAMPCTL_ENABLECHAN 2) 1 0 IIO_CHAN_INFO_SAMP_FREQ =
     (- EINVAL, table_adc (\<lambda>_. 0)) \<and>
   hlampctl_write_raw (table_adc (\<lambda>_. 0)) (HLAMPCTL_ENABLECHAN 2) 1 0 IIO_CHAN_INFO_RAW =
     (0, (table_adc (\<lambda>_. 0))
           \<lparr>i2c := (table_client ((\<lambda>_. 0)(3 := 1)))\<lparr>xfers := [Write_byte_data 3 1]\<rparr>\<rparr>)"
proof -
  let ?adc = "table_adc (\<lambda>_. 0)"
  have chans: "channel (HLAMPCTL_ADCCHAN 0) \<noteq> 2" "channel (HLAMPCTL_TEMPCHAN 1) \<noteq> 2"
      "channel (HLAMPCTL_ENABLECHAN 2) = 2"
    by (simp_all add: HLAMPCTL_ADCCHAN_def HLAMPCTL_TEMPCHAN_def HLAMPCTL_ENABLECHAN_def)
  have unlock: "mutex_unlock ((mutex_lock ?adc)\<lparr>i2c := c\<rparr>) = ?adc\<lparr>i2c := c\<rparr>" for c
    by (simp add: mutex_lock_def mutex_unlock_def table_adc_def)
  have "hlampctl_write_raw ?adc (HLAMPCTL_ADCCHAN 0) 1 0 IIO_CHAN_INFO_RAW = (- EINVAL, ?adc)"
    using hlampctl_write_raw_only_channel2_raw
      [of "HLAMPCTL_ADCCHAN 0" IIO_CHAN_INFO_RAW ?adc 1 0]
    by (simp add: chans)
  moreover
  have "hlampctl_write_raw ?adc (HLAMPCTL_TEMPCHAN 1) 1 0 IIO_CHAN_INFO_RAW = (- EINVAL, ?adc)"
    using hlampctl_write_raw_only_channel2_raw
      [of "HLAMPCTL_TEMPCHAN 1" IIO_CHAN_INFO_RAW ?adc 1 0]
    by (simp add: chans)
  moreover
  have "hlampctl_write_raw ?adc (HLAMPCTL_ENABLECHAN 2) 1 0 IIO_CHAN_INFO_SCALE = (- EINVAL, ?adc)"
    using hlampctl_write_raw_only_channel2_raw
      [of "HLAMPCTL_ENABLECHAN 2" IIO_CHAN_INFO_SCALE ?adc 1 0]
    by (simp add: info_distinct)
  moreover
  have "hlampctl_write_raw ?adc (HLAMPCTL_ENABLECHAN 2) 1 0 IIO_CHAN_INFO_SAMP_FREQ =
      (- EINVAL, ?adc)"
    using hlampctl_write_raw_only_channel2_raw
      [of "HLAMPCTL_ENABLECHAN 2" IIO_CHAN_INFO_SAMP_FREQ ?adc 1 0]
    by (simp add: info_distinct)
  moreover
  have "hlampctl_write_raw ?adc (HLAMPCTL_ENABLECHAN 2) 1 0 IIO_CHAN_INFO_RAW =
      (0, ?adc\<lparr>i2c := (table_client ((\<lambda>_. 0)(3 := 1)))\<lparr>xfers := [Write_byte_data 3 1]\<rparr>\<rparr>)"
    using hlampctl_write_raw_only_channel2_raw
      [of "HLAMPCTL_ENABLECHAN 2" IIO_CHAN_INFO_RAW ?adc 1 0]
    by (simp add: chans table_adc_write unlock)
  ultimately show ?thesis
    by (simp only: simp_thms)
qed

text \<open>
  Claim C3. For a channel numbered 0 the SCALE facet of \<open>hlampctl_read_raw\<close> answers the
  format integer-plus-nano with the pair (0, 12890625), where 12890625 is the truncated
  quotient of 3300000000 by 256; for channels numbered 1 and 2 it answers the format
  plain integer with the value 1 and leaves the second cell alone. In all three cases
  the client data is returned unchanged, so no transfer has been issued.
\<close>

theorem hlampctl_read_raw_scale:
  "hlampctl_read_raw adc (chan\<lparr>channel := 0\<rparr>) val1 val2 IIO_CHAN_INFO_SCALE =
     (IIO_VAL_INT_PLUS_NANO, 0, 12890625, adc) \<and>
   sint (12890625 :: c_int) = 3300000000 div 256 \<and>
   hlampctl_read_raw adc (chan\<lparr>channel := 1\<rparr>) val1 val2 IIO_CHAN_INFO_SCALE =
     (IIO_VAL_INT, 1, val2, adc) \<and>
   hlampctl_read_raw adc (chan\<lparr>channel := 2\<rparr>) val1 val2 IIO_CHAN_INFO_SCALE =
     (IIO_VAL_INT, 1, val2, adc)"
  unfolding hlampctl_read_raw_def
  by (simp add: info_distinct)

text \<open>
  Claim C6. The SAMP_FREQ facet of \<open>hlampctl_read_raw\<close> answers the format plain integer
  with the value 10 for every channel descriptor and every client data, which it
  returns unchanged.
\<close>

theorem hlampctl_read_raw_samp_freq:
  "hlampctl_read_raw adc chan val1 val2 IIO_CHAN_INFO_SAMP_FREQ = (IIO_VAL_INT, 10, val2, adc)"
  unfolding hlampctl_read_raw_def
  by (simp add: info_distinct)

section \<open>Writing channel 2 and reading it back\<close>

text \<open>
  Claim C2. Let the adapter answer a byte read at sub-address 3 with the byte last
  written there whenever the read follows the write directly. Then for every value \<open>v\<close>,
  \<open>hlampctl_write\<close> on channel 2 puts exactly one transfer on the link, the write of the
  byte 1 to sub-address 3 when \<open>v > 0\<close> and of the byte 0 otherwise, and a following
  \<open>hlampctl_read\<close> on channel 2 succeeds and stores 1 when \<open>v > 0\<close> and 0 otherwise.
\<close>

theorem hlampctl_write_then_read_channel2:
  assumes "\<And>p b r p'. write_byte_data (adapter (i2c adc)) p 3 b = (r, p') \<Longrightarrow>
             fst (read_byte_data (adapter (i2c adc)) p' 3) = ucast b"
  shows "xfers (i2c (snd (hlampctl_write adc 2 v))) =
           xfers (i2c adc) @ [Write_byte_data 3 (if 0 < sint v then 1 else 0)] \<and>
         fst (hlampctl_read (snd (hlampctl_write adc 2 v)) 2 old) = 0 \<and>
         fst (snd (hlampctl_read (snd (hlampctl_write adc 2 v)) 2 old)) =
           (if 0 < sint v then 1 else 0)"
proof -
  define b :: u8 where "b = (if 0 < sint v then 1 else 0)"
  obtain r p' where wr: "write_byte_data (adapter (i2c adc)) (periph (i2c adc)) 3 b = (r, p')"
    by (cases "write_byte_data (adapter (i2c adc)) (periph (i2c adc)) 3 b")
  define client where
    "client = (i2c adc)\<lparr>periph := p', xfers := xfers (i2c adc) @ [Write_byte_data 3 b]\<rparr>"
  have "i2c_smbus_write_byte_data (i2c adc) 3 b = (r, client)"
    by (simp add: i2c_smbus_write_byte_data_def wr client_def)
  then have w: "hlampctl_write adc 2 v = (r, adc\<lparr>i2c := client\<rparr>)"
    unfolding b_def by (rule hlampctl_write_2)
  obtain q where rd: "read_byte_data (adapter (i2c adc)) p' 3 = (ucast b, q)"
    using assms [OF wr] by (cases "read_byte_data (adapter (i2c adc)) p' 3") simp
  define client' where "client' = client\<lparr>periph := q, xfers := xfers client @ [Read_byte_data 3]\<rparr>"
  have "i2c_smbus_read_byte_data (i2c (adc\<lparr>i2c := client\<rparr>)) 3 = (ucast b, client')"
    by (simp add: i2c_smbus_read_byte_data_def client_def client'_def rd)
  from hlampctl_read_2 [OF this, of old]
  have "hlampctl_read (adc\<lparr>i2c := client\<rparr>) 2 old =
      (0, ucast b AND 1, adc\<lparr>i2c := client, i2c := client'\<rparr>)"
    by (simp add: sint_ucast_u8)
  moreover have "((ucast b :: c_int) AND 1) = (if 0 < sint v then 1 else 0)"
    by (simp add: b_def)
  moreover have "xfers (i2c (adc\<lparr>i2c := client\<rparr>)) = xfers (i2c adc) @ [Write_byte_data 3 b]"
    by (simp add: client_def)
  ultimately show ?thesis
    by (simp add: w b_def)
qed

text \<open>The sample peripheral reads back what was written.\<close>

lemma table_adapter_echo:
  "write_byte_data (adapter (i2c (table_adc p0))) p 3 b = (r, p') \<Longrightarrow>
     fst (read_byte_data (adapter (i2c (table_adc p0))) p' 3) = ucast b"
  by (auto simp: table_adc_def table_client_def table_adapter_def)

theorem hlampctl_write_then_read_channel2_witness:
  "xfers (i2c (snd (hlampctl_write (table_adc (\<lambda>_. 0)) 2 5))) = [Write_byte_data 3 1] \<and>
   fst (hlampctl_read (snd (hlampctl_write (table_adc (\<lambda>_. 0)) 2 5)) 2 9) = 0 \<and>
   fst (snd (hlampctl_read (snd (hlampctl_write (table_adc (\<lambda>_. 0)) 2 5)) 2 9)) = 1 \<and>
   xfers (i2c (snd (hlampctl_write (table_adc (\<lambda>_. 1)) 2 (- 3)))) = [Write_byte_data 3 0] \<and>
   fst (hlampctl_read (snd (hlampctl_write (table_adc (\<lambda>_. 1)) 2 (- 3))) 2 9) = 0 \<and>
   fst (snd (hlampctl_read (snd (hlampctl_write (table_adc (\<lambda>_. 1)) 2 (- 3))) 2 9)) = 0"
  using hlampctl_write_then_read_channel2 [of "table_adc (\<lambda>_. 0)" 5 9, OF table_adapter_echo]
    hlampctl_write_then_read_channel2 [of "table_adc (\<lambda>_. 1)" "- 3" 9, OF table_adapter_echo]
  by (simp add: table_adc_def table_client_def)

section \<open>Attaching\<close>

lemma table_client_functionality:
  "i2c_check_functionality (adapter (table_client p)) I2C_FUNC_I2C"
  by (simp add: i2c_check_functionality_def table_client_def table_adapter_def)

lemma table_client_recv:
  "i2c_master_recv (table_client p) 1 = (1, (table_client p)\<lparr>xfers := [Master_recv 1]\<rparr>)"
  by (simp add: i2c_master_recv_def table_client_def table_adapter_def)

lemma hlampctl_probe_not_found:
  assumes "i2c_check_functionality (adapter client) I2C_FUNC_I2C"
    and "devm_iio_device_alloc core"
    and "i2c_master_recv client 1 = (ret, client')"
    and "sint ret < 0"
  shows "hlampctl_probe core client = (- ENODEV, client', None)"
  unfolding hlampctl_probe_def
  by (simp add: assms Let_def mutex_init_def mutex_lock_def mutex_unlock_def del: One_nat_def)

lemma hlampctl_probe_attached:
  assumes "i2c_check_functionality (adapter client) I2C_FUNC_I2C"
    and "devm_iio_device_alloc core"
    and "i2c_master_recv client 1 = (ret, client')"
    and "\<not> sint ret < 0"
  shows "hlampctl_probe core client =
    (let indio_dev =
           \<lparr>priv = \<lparr>i2c = client', id_client = 0, lock = False\<rparr>, dev_name = name client,
            modes = INDIO_DIRECT_MODE, info = Some hlampctl_info,
            channels = hlampctl_channels, num_channels = 3\<rparr>;
         err = devm_iio_device_register core indio_dev
     in if sint err < 0 then (err, client', None) else (0, client', Some indio_dev))"
  unfolding hlampctl_probe_def
  by (simp add: assms Let_def mutex_init_def mutex_lock_def mutex_unlock_def del: One_nat_def)

text \<open>
  Claim C4, amended. \<open>hlampctl_probe\<close> returns \<open>-EOPNOTSUPP\<close> when the adapter lacks the
  I2C functionality, without any transfer; otherwise \<open>-ENOMEM\<close> when the framework yields no
  device, again without any transfer; otherwise \<open>-ENODEV\<close> when the one-byte probe
  receive answers a negative code. Otherwise it hands the framework a device with
  exactly the three channels 0, 1, 2 of the channel table: when the framework refuses
  the registration with a negative code, the probe returns that code and nothing is
  registered; else the probe returns 0 and that device is registered.
\<close>

theorem hlampctl_probe_outcomes:
  "(\<not> i2c_check_functionality (adapter client) I2C_FUNC_I2C \<longrightarrow>
      hlampctl_probe core client = (- EOPNOTSUPP, client, None)) \<and>
   (i2c_check_functionality (adapter client) I2C_FUNC_I2C \<and> \<not> devm_iio_device_alloc core \<longrightarrow>
      hlampctl_probe core client = (- ENOMEM, client, None)) \<and>
   (i2c_check_functionality (adapter client) I2C_FUNC_I2C \<and> devm_iio_device_alloc core \<and>
    sint (fst (i2c_master_recv client 1)) < 0 \<longrightarrow>
      hlampctl_probe core client = (- ENODEV, snd (i2c_master_recv client 1), None)) \<and>
   (i2c_check_functionality (adapter client) I2C_FUNC_I2C \<and> devm_iio_device_alloc core \<and>
    \<not> sint (fst (i2c_master_recv client 1)) < 0 \<longrightarrow>
      (\<exists>indio_dev.
         channels indio_dev = hlampctl_channels \<and> num_channels indio_dev = 3 \<and>
         length (channels indio_dev) = 3 \<and>
         map channel (channels indio_dev) = [0, 1, 2] \<and>
         i2c (priv indio_dev) = snd (i2c_master_recv client 1) \<and>
         hlampctl_probe core client =
           (if sint (devm_iio_device_register core indio_dev) < 0
            then (devm_iio_device_register core indio_dev, snd (i2c_master_recv client 1), None)
            else (0, snd (i2c_master_recv client 1), Some indio_dev))))"
proof (intro conjI impI)
  assume "\<not> i2c_check_functionality (adapter client) I2C_FUNC_I2C"
  then show "hlampctl_probe core client = (- EOPNOTSUPP, client, None)"
    by (simp add: hlampctl_probe_def)
next
  assume "i2c_check_functionality (adapter client) I2C_FUNC_I2C \<and> \<not> devm_iio_device_alloc core"
  then show "hlampctl_probe core client = (- ENOMEM, client, None)"
    by (simp add: hlampctl_probe_def)
next
  assume "i2c_check_functionality (adapter client) I2C_FUNC_I2C \<and> devm_iio_device_alloc core \<and>
    sint (fst (i2c_master_recv client 1)) < 0"
  moreover obtain ret client' where "i2c_master_recv client 1 = (ret, client')"
    by (cases "i2c_master_recv client 1")
  ultimately show "hlampctl_probe core client = (- ENODEV, snd (i2c_master_recv client 1), None)"
    by (simp add: hlampctl_probe_not_found del: One_nat_def)
next
  assume a: "i2c_check_functionality (adapter client) I2C_FUNC_I2C \<and> devm_iio_device_alloc core \<and>
    \<not> sint (fst (i2c_master_recv client 1)) < 0"
  obtain ret client' where recv: "i2c_master_recv client 1 = (ret, client')"
    by (cases "i2c_master_recv client 1")
  define indio_dev where "indio_dev =
     \<lparr>priv = \<lparr>i2c = client', id_client = 0, lock = False\<rparr>, dev_name = name client,
      modes = INDIO_DIRECT_MODE, info = Some hlampctl_info,
      channels = hlampctl_channels, num_channels = 3\<rparr>"
  have "hlampctl_probe core client =
      (if sint (devm_iio_device_register core indio_dev) < 0
       then (devm_iio_device_register core indio_dev, client', None)
       else (0, client', Some indio_dev))"
    using a recv
    by (simp add: hlampctl_probe_attached [OF _ _ recv] Let_def indio_dev_def del: One_nat_def)
  moreover have "map channel hlampctl_channels = [0, 1, 2]"
    by (simp add: hlampctl_channels_def HLAMPCTL_ADCCHAN_def HLAMPCTL_TEMPCHAN_def
        HLAMPCTL_ENABLECHAN_def)
  moreover have "length hlampctl_channels = 3"
    by (simp add: hlampctl_channels_def)
  ultimately show "\<exists>indio_dev.
         channels indio_dev = hlampctl_channels \<and> num_channels indio_dev = 3 \<and>
         length (channels indio_dev) = 3 \<and>
         map channel (channels indio_dev) = [0, 1, 2] \<and>
         i2c (priv indio_dev) = snd (i2c_master_recv client 1) \<and>
         hlampctl_probe core client =
           (if sint (devm_iio_device_register core indio_dev) < 0
            then (devm_iio_device_register core indio_dev, snd (i2c_master_recv client 1), None)
            else (0, snd (i2c_master_recv client 1), Some indio_dev))"
    by (intro exI [of _ indio_dev]) (simp add: recv indio_dev_def del: One_nat_def)
qed

text \<open>
  The claim C4 as first stated, that the probe succeeds whenever the functionality is
  there and the probe receive reports no error, fails for a framework that refuses the
  registration: here with the code -16 (busy), which the probe returns.
\<close>

theorem hlampctl_probe_registration_refused:
  "i2c_check_functionality (adapter (table_client (\<lambda>_. 0))) I2C_FUNC_I2C \<and>
   \<not> sint (fst (i2c_master_recv (table_client (\<lambda>_. 0)) 1)) < 0 \<and>
   hlampctl_probe \<lparr>devm_iio_device_alloc = True, devm_iio_device_register = (\<lambda>_. - 16)\<rparr>
       (table_client (\<lambda>_. 0)) =
     (- 16, (table_client (\<lambda>_. 0))\<lparr>xfers := [Master_recv 1]\<rparr>, None) \<and>
   (- 16 :: c_int) \<noteq> 0"
proof -
  have "hlampctl_probe \<lparr>devm_iio_device_alloc = True, devm_iio_device_register = (\<lambda>_. - 16)\<rparr>
       (table_client (\<lambda>_. 0)) =
     (- 16, (table_client (\<lambda>_. 0))\<lparr>xfers := [Master_recv 1]\<rparr>, None)"
    by (simp add: hlampctl_probe_attached [OF table_client_functionality _ table_client_recv])
  then show ?thesis
    by (simp add: table_client_functionality table_client_recv del: One_nat_def)
qed

theorem hlampctl_probe_outcomes_witness:
  "hlampctl_probe \<lparr>devm_iio_device_alloc = True, devm_iio_device_register = (\<lambda>_. 0)\<rparr>
       ((table_client (\<lambda>_. 0))\<lparr>adapter := table_adapter\<lparr>functionality := 0\<rparr>\<rparr>) =
     (- EOPNOTSUPP, (table_client (\<lambda>_. 0))\<lparr>adapter := table_adapter\<lparr>functionality := 0\<rparr>\<rparr>,
      None) \<and>
   hlampctl_probe \<lparr>devm_iio_device_alloc = False, devm_iio_device_register = (\<lambda>_. 0)\<rparr>
       (table_client (\<lambda>_. 0)) =
     (- ENOMEM, table_client (\<lambda>_. 0), None) \<and>
   hlampctl_probe \<lparr>devm_iio_device_alloc = True, devm_iio_device_register = (\<lambda>_. 0)\<rparr>
       ((table_client (\<lambda>_. 0))
          \<lparr>adapter := table_adapter\<lparr>master_recv := (\<lambda>p count. (- 6, p))\<rparr>\<rparr>) =
     (- ENODEV,
      (table_client (\<lambda>_. 0))
         \<lparr>adapter := table_adapter\<lparr>master_recv := (\<lambda>p count. (- 6, p))\<rparr>,
          xfers := [Master_recv 1]\<rparr>,
      None) \<and>
   fst (hlampctl_probe \<lparr>devm_iio_device_alloc = True, devm_iio_device_register = (\<lambda>_. 0)\<rparr>
       (table_client (\<lambda>_. 0))) = 0 \<and>
   (\<exists>indio_dev.
      snd (snd (hlampctl_probe
         \<lparr>devm_iio_device_alloc = True, devm_iio_device_register = (\<lambda>_. 0)\<rparr>
         (table_client (\<lambda>_. 0)))) = Some indio_dev \<and>
      num_channels indio_dev = 3 \<and> map channel (channels indio_dev) = [0, 1, 2])"
proof -
  let ?ok = "\<lparr>devm_iio_device_alloc = True, devm_iio_device_register = (\<lambda>_. 0)\<rparr>
    :: (u8 \<Rightarrow> s32) iio_core"
  let ?oom = "\<lparr>devm_iio_device_alloc = False, devm_iio_device_register = (\<lambda>_. 0)\<rparr>
    :: (u8 \<Rightarrow> s32) iio_core"
  let ?c = "table_client (\<lambda>_. 0)"
  let ?nofunc = "?c\<lparr>adapter := table_adapter\<lparr>functionality := 0\<rparr>\<rparr>"
  let ?absent = "?c\<lparr>adapter := table_adapter\<lparr>master_recv := (\<lambda>p count. (- 6, p))\<rparr>\<rparr>"
  have nofunc: "\<not> i2c_check_functionality (adapter ?nofunc) I2C_FUNC_I2C"
    by (simp add: i2c_check_functionality_def I2C_FUNC_I2C_def)
  have absent_func: "i2c_check_functionality (adapter ?absent) I2C_FUNC_I2C"
    by (simp add: i2c_check_functionality_def table_adapter_def)
  have absent_recv: "i2c_master_recv ?absent 1 = (- 6, ?absent\<lparr>xfers := [Master_recv 1]\<rparr>)"
    by (simp add: i2c_master_recv_def table_client_def table_adapter_def)
  have "hlampctl_probe ?ok ?nofunc = (- EOPNOTSUPP, ?nofunc, None)"
    using hlampctl_probe_outcomes [of ?nofunc ?ok] nofunc by simp
  moreover have "hlampctl_probe ?oom ?c = (- ENOMEM, ?c, None)"
    using hlampctl_probe_outcomes [of ?c ?oom] by (simp add: table_client_functionality)
  moreover have "hlampctl_probe ?ok ?absent = (- ENODEV, ?absent\<lparr>xfers := [Master_recv 1]\<rparr>, None)"
    using hlampctl_probe_outcomes [of ?absent ?ok] absent_func
    by (simp add: absent_recv del: One_nat_def)
  moreover have "fst (hlampctl_probe ?ok ?c) = 0 \<and>
      (\<exists>indio_dev. snd (snd (hlampctl_probe ?ok ?c)) = Some indio_dev \<and>
         num_channels indio_dev = 3 \<and> map channel (channels indio_dev) = [0, 1, 2])"
  proof -
    have "i2c_check_functionality (adapter ?c) I2C_FUNC_I2C \<and> devm_iio_device_alloc ?ok \<and>
        \<not> sint (fst (i2c_master_recv ?c 1)) < 0"
      by (simp add: table_client_functionality table_client_recv del: One_nat_def)
    from hlampctl_probe_outcomes
      [of ?c ?ok, THEN conjunct2, THEN conjunct2, THEN conjunct2, THEN mp, OF this]
    show ?thesis
      by (elim exE conjE) (simp del: One_nat_def)
  qed
  ultimately show ?thesis
    by (simp only: simp_thms)
qed

end
